theory Spec2Isabelle
  imports Main "HOL-Library.Word"
begin

section \<open>The Wayback Machine infobar view\<close>

text \<open>
  A model of \<^verbatim>\<open>browser/ui/views/infobars/brave_wayback_machine_infobar_view.cc\<close>:
  the sub-view container \<^verbatim>\<open>InfoBarViewSubViews\<close> with its two sets of controls, and
  the infobar view \<^verbatim>\<open>BraveWaybackMachineInfoBarView\<close> with the lookup it sends to the
  archive and the handler of its completion.

  Calls into the host (the loader, the navigation controller, the infobar service)
  are recorded, in order, in a log of effects. Abnormal termination (a failed
  \<^verbatim>\<open>CHECK\<close>, a null pointer) is a value of type \<open>error\<close>.
\<close>

datatype error = CHECK_is_dict | CHECK_is_string | NullPointer

subsection \<open>JSON values of the base library\<close>

text \<open>
  \<^verbatim>\<open>base::Value\<close> with the types of \<^verbatim>\<open>base::Value::Type\<close>. A dictionary is
  a list of entries looked up by key.
\<close>

datatype Value =
    NONE
  | BOOLEAN bool
  | INTEGER "32 word"
  | DOUBLE "64 word"
  | STRING string
  | BINARY "8 word list"
  | DICTIONARY "(string \<times> Value) list"
  | LIST "Value list"

fun is_dict :: "Value \<Rightarrow> bool" where
  "is_dict (DICTIONARY d) = True"
| "is_dict v = False"

fun is_string :: "Value \<Rightarrow> bool" where
  "is_string (STRING s) = True"
| "is_string v = False"

text \<open>\<^verbatim>\<open>Value::GetString\<close> is \<^verbatim>\<open>CHECK(is_string())\<close> and then the string.\<close>

fun GetString :: "Value \<Rightarrow> error + string" where
  "GetString (STRING s) = Inr s"
| "GetString v = Inl CHECK_is_string"

text \<open>The components of a dotted path, as the path splitter of the library yields them.\<close>

fun SplitPath :: "string \<Rightarrow> string list" where
  "SplitPath [] = ['''']"
| "SplitPath (c # cs) =
     (if c = CHR ''.'' then [] # SplitPath cs
      else (case SplitPath cs of [] \<Rightarrow> [c # []] | x # xs \<Rightarrow> (c # x) # xs))"

text \<open>
  The walk of \<^verbatim>\<open>Value::FindPath\<close>: at each component the current value must be a
  dictionary holding the key, otherwise the result is \<^verbatim>\<open>nullptr\<close>. The type of the
  value found at the end is not looked at.
\<close>

fun FindPathFrom :: "Value \<Rightarrow> string list \<Rightarrow> Value option" where
  "FindPathFrom cur [] = Some cur"
| "FindPathFrom (DICTIONARY d) (component # rest) =
     (case map_of d component of
        None \<Rightarrow> None
      | Some nxt \<Rightarrow> FindPathFrom nxt rest)"
| "FindPathFrom cur (component # rest) = None"

text \<open>\<^verbatim>\<open>Value::FindPath(StringPiece)\<close>: \<^verbatim>\<open>CHECK(is_dict())\<close> on the root, then the walk.\<close>

definition FindPath :: "Value \<Rightarrow> string \<Rightarrow> error + Value option" where
  "FindPath v path =
     (if is_dict v then Inr (FindPathFrom v (SplitPath path)) else Inl CHECK_is_dict)"

text \<open>
  The base library is not part of this repository. The handler below reaches it through
  \<^verbatim>\<open>base::JSONReader::Read\<close> and \<^verbatim>\<open>Value::FindPath\<close>, and both are parameters of the
  model: the parser gives a value or nothing; the lookup gives a pointer or \<^verbatim>\<open>nullptr\<close>,
  or fails a \<^verbatim>\<open>CHECK\<close> of its own. \<open>FindPath\<close> above is the lookup used on the sample
  responses.
\<close>

record base_library =
  JSONReader_Read :: "string \<Rightarrow> Value option"
  Value_FindPath :: "Value \<Rightarrow> string \<Rightarrow> error + Value option"

subsection \<open>Constants of the file\<close>

definition kWaybackQueryURL :: string where
  "kWaybackQueryURL = ''https://archive.org/wayback/available?url=''"

definition kMaxBodySize :: int where
  "kMaxBodySize = 1024 * 1024"

text \<open>
  Colour ids are enumerators of \<^verbatim>\<open>ThemeProperties\<close>; the two the file names are
  listed, every other id is \<open>COLOR_OTHER\<close>.
\<close>

datatype ThemeProperties = COLOR_INFOBAR | COLOR_BOOKMARK_TEXT | COLOR_OTHER int

definition kInfoBarLabelBackgroundColor :: ThemeProperties where
  "kInfoBarLabelBackgroundColor = COLOR_INFOBAR"

definition kInfoBarLabelTextColor :: ThemeProperties where
  "kInfoBarLabelTextColor = COLOR_BOOKMARK_TEXT"

type_synonym SkColor = "32 word"

type_synonym ThemeProvider = "ThemeProperties \<Rightarrow> SkColor"

text \<open>
  \<^verbatim>\<open>gfx::kPlaceholderColor\<close> is declared in \<^verbatim>\<open>ui/gfx/color_palette.h\<close> as opaque red.
  No property below depends on its value.
\<close>

definition kPlaceholderColor :: SkColor where
  "kPlaceholderColor = 0xFFFF0000"

subsection \<open>Views\<close>

text \<open>
  A view object carries what this file sets and the properties below read: its visibility
  (true for a new view), the two colours of a label and the colour of a separator.
  Margins, flex rules, fonts, texts and images are layout and resources and are left
  out. Objects live in a store; a pointer is an index into it.
\<close>

datatype view_class = ImageView | Separator | Label | View | MdTextButton

record view_object =
  view_class_of :: view_class
  visible :: bool
  background_color :: "SkColor option"
  enabled_color :: "SkColor option"
  separator_color :: "SkColor option"

definition new_view :: "view_class \<Rightarrow> view_object" where
  "new_view c = \<lparr>view_class_of = c, visible = True, background_color = None,
                 enabled_color = None, separator_color = None\<rparr>"

record InfoBarViewSubViews =
  store :: "view_object list"
  children :: "nat list"
  labels :: "nat list"
  views_visible_before_checking :: "nat list"
  views_visible_after_checking :: "nat list"
  separator :: "nat option"

text \<open>
  A new object gets the next index. An update through a pointer outside the store
  changes nothing; the states reached from the constructor hold no such pointer.
\<close>

definition alloc :: "view_object \<Rightarrow> InfoBarViewSubViews \<Rightarrow> nat \<times> InfoBarViewSubViews" where
  "alloc obj s = (length (store s), s\<lparr>store := store s @ [obj]\<rparr>)"

definition update_view ::
  "nat \<Rightarrow> (view_object \<Rightarrow> view_object) \<Rightarrow> InfoBarViewSubViews \<Rightarrow> InfoBarViewSubViews" where
  "update_view p f s = s\<lparr>store := (store s)[p := f (store s ! p)]\<rparr>"

definition SetVisible :: "bool \<Rightarrow> nat \<Rightarrow> InfoBarViewSubViews \<Rightarrow> InfoBarViewSubViews" where
  "SetVisible b p s = update_view p (\<lambda>v. v\<lparr>visible := b\<rparr>) s"

definition SetBackgroundColor :: "SkColor \<Rightarrow> nat \<Rightarrow> InfoBarViewSubViews \<Rightarrow> InfoBarViewSubViews" where
  "SetBackgroundColor c p s = update_view p (\<lambda>v. v\<lparr>background_color := Some c\<rparr>) s"

definition SetEnabledColor :: "SkColor \<Rightarrow> nat \<Rightarrow> InfoBarViewSubViews \<Rightarrow> InfoBarViewSubViews" where
  "SetEnabledColor c p s = update_view p (\<lambda>v. v\<lparr>enabled_color := Some c\<rparr>) s"

definition SetColor :: "SkColor \<Rightarrow> nat \<Rightarrow> InfoBarViewSubViews \<Rightarrow> InfoBarViewSubViews" where
  "SetColor c p s = update_view p (\<lambda>v. v\<lparr>separator_color := Some c\<rparr>) s"

definition AddChildView :: "nat \<Rightarrow> InfoBarViewSubViews \<Rightarrow> InfoBarViewSubViews" where
  "AddChildView p s = s\<lparr>children := children s @ [p]\<rparr>"

subsection \<open>InfoBarViewSubViews\<close>

text \<open>
  \<^verbatim>\<open>GetThemeProvider()\<close> is the host's answer at the time of the call, null while the
  view is in no widget; it is an argument of the functions that ask for it.
\<close>

definition GetColor :: "ThemeProvider option \<Rightarrow> ThemeProperties \<Rightarrow> SkColor" where
  "GetColor theme_provider color_id =
     (case theme_provider of Some tp \<Rightarrow> tp color_id | None \<Rightarrow> kPlaceholderColor)"

definition CreateLabel ::
  "ThemeProvider option \<Rightarrow> InfoBarViewSubViews \<Rightarrow> nat \<times> InfoBarViewSubViews" where
  "CreateLabel tp s0 =
     (let (label, s) = alloc (new_view Label) s0;
          s = s\<lparr>labels := labels s @ [label]\<rparr>;
          s = SetBackgroundColor (GetColor tp kInfoBarLabelBackgroundColor) label s;
          s = SetEnabledColor (GetColor tp kInfoBarLabelTextColor) label s
      in (label, s))"

definition UpdateChildrenVisibility :: "bool \<Rightarrow> InfoBarViewSubViews \<Rightarrow> InfoBarViewSubViews" where
  "UpdateChildrenVisibility show_before_checking_views s0 =
     (let s = fold (SetVisible show_before_checking_views) (views_visible_before_checking s0) s0;
          s = fold (SetVisible (\<not> show_before_checking_views)) (views_visible_after_checking s) s
      in s)"

definition push_before :: "nat \<Rightarrow> InfoBarViewSubViews \<Rightarrow> InfoBarViewSubViews" where
  "push_before p s =
     s\<lparr>views_visible_before_checking := views_visible_before_checking s @ [p]\<rparr>"

definition push_after :: "nat \<Rightarrow> InfoBarViewSubViews \<Rightarrow> InfoBarViewSubViews" where
  "push_after p s =
     s\<lparr>views_visible_after_checking := views_visible_after_checking s @ [p]\<rparr>"

definition InitializeChildren ::
  "ThemeProvider option \<Rightarrow> InfoBarViewSubViews \<Rightarrow> InfoBarViewSubViews" where
  "InitializeChildren tp s0 =
     (let (image_view, s) = alloc (new_view ImageView) s0;
          s = AddChildView image_view s;
          (sep, s) = alloc (new_view Separator) s;
          s = s\<lparr>separator := Some sep\<rparr>;
          s = AddChildView sep s;
          (label, s) = CreateLabel tp s;
          s = push_before label s;
          s = AddChildView label s;
          (label, s) = CreateLabel tp s;
          s = push_before label s;
          s = AddChildView label s;
          (place_holder_view, s) = alloc (new_view View) s;
          s = push_before place_holder_view s;
          s = AddChildView place_holder_view s;
          (label, s) = CreateLabel tp s;
          s = push_after label s;
          s = AddChildView label s;
          (sad_icon, s) = alloc (new_view ImageView) s;
          s = push_after sad_icon s;
          s = AddChildView sad_icon s;
          (button, s) = alloc (new_view MdTextButton) s;
          s = push_before button s;
          s = AddChildView button s
      in UpdateChildrenVisibility True s)"

text \<open>The constructor: an object with no children and an unset separator, then \<open>InitializeChildren\<close>.\<close>

definition InfoBarViewSubViews_new :: "ThemeProvider option \<Rightarrow> InfoBarViewSubViews" where
  "InfoBarViewSubViews_new tp =
     InitializeChildren tp
       \<lparr>store = [], children = [], labels = [], views_visible_before_checking = [],
        views_visible_after_checking = [], separator = None\<rparr>"

text \<open>
  \<^verbatim>\<open>separator_\<close> is assigned in \<open>InitializeChildren\<close>; a theme change on an object where
  it is unset has no separator to colour and is an error.
\<close>

definition OnThemeChanged ::
  "ThemeProvider option \<Rightarrow> InfoBarViewSubViews \<Rightarrow> error + InfoBarViewSubViews" where
  "OnThemeChanged tp s0 =
     (let background_color = GetColor tp kInfoBarLabelBackgroundColor;
          text_color = GetColor tp kInfoBarLabelTextColor;
          s = fold (\<lambda>label s. SetEnabledColor text_color label
                                (SetBackgroundColor background_color label s))
                   (labels s0) s0
      in case separator s of
           None \<Rightarrow> Inl NullPointer
         | Some sep \<Rightarrow> Inr (SetColor text_color sep s))"

definition OnWaybackURLFetchFailed :: "InfoBarViewSubViews \<Rightarrow> InfoBarViewSubViews" where
  "OnWaybackURLFetchFailed s = UpdateChildrenVisibility False s"

subsection \<open>BraveWaybackMachineInfoBarView\<close>

text \<open>
  A \<^verbatim>\<open>GURL\<close> is kept as the string it was built from; \<open>spec\<close> gives it back. The
  canonicalisation done by the URL library is not modelled.
\<close>

datatype GURL = GURL string

fun spec :: "GURL \<Rightarrow> string" where
  "spec (GURL s) = s"

text \<open>
  The calls into the host, as the log records them: the download started on the loader
  with its size limit, the navigation, and the removal of the infobar.
\<close>

datatype effect =
    DownloadToString GURL int
  | NavigationController_LoadURL GURL
  | InfoBarService_RemoveInfoBar

text \<open>
  The infobar view: its sub-views, the loader of the last download (kept as the URL of
  its request) and the log.
\<close>

record BraveWaybackMachineInfoBarView =
  sub_views :: InfoBarViewSubViews
  wayback_url_fetcher :: "GURL option"
  effects :: "effect list"

definition BraveWaybackMachineInfoBarView_new ::
  "ThemeProvider option \<Rightarrow> BraveWaybackMachineInfoBarView" where
  "BraveWaybackMachineInfoBarView_new tp =
     \<lparr>sub_views = InfoBarViewSubViews_new tp, wayback_url_fetcher = None, effects = []\<rparr>"

text \<open>
  \<^verbatim>\<open>contents_->GetVisibleURL()\<close> is the tab's answer at the time of the call and is
  an argument.
\<close>

definition FetchWaybackURL ::
  "GURL \<Rightarrow> BraveWaybackMachineInfoBarView \<Rightarrow> BraveWaybackMachineInfoBarView" where
  "FetchWaybackURL visible_url st =
     (let wayback_fetch_url = kWaybackQueryURL @ spec visible_url;
          request_url = GURL wayback_fetch_url
      in st\<lparr>wayback_url_fetcher := Some request_url,
            effects := effects st @ [DownloadToString request_url kMaxBodySize]\<rparr>)"

definition ButtonPressed ::
  "GURL \<Rightarrow> BraveWaybackMachineInfoBarView \<Rightarrow> BraveWaybackMachineInfoBarView" where
  "ButtonPressed visible_url st = FetchWaybackURL visible_url st"

definition LoadURL ::
  "string \<Rightarrow> BraveWaybackMachineInfoBarView \<Rightarrow> BraveWaybackMachineInfoBarView" where
  "LoadURL last_wayback_url st =
     st\<lparr>effects := effects st @ [NavigationController_LoadURL (GURL last_wayback_url)]\<rparr>"

definition RemoveInfoBar :: "BraveWaybackMachineInfoBarView \<Rightarrow> BraveWaybackMachineInfoBarView" where
  "RemoveInfoBar st = st\<lparr>effects := effects st @ [InfoBarService_RemoveInfoBar]\<rparr>"

text \<open>\<^verbatim>\<open>sub_views_->OnWaybackURLFetchFailed()\<close>, on the state of the infobar.\<close>

definition fetch_failed :: "BraveWaybackMachineInfoBarView \<Rightarrow> BraveWaybackMachineInfoBarView" where
  "fetch_failed st = st\<lparr>sub_views := OnWaybackURLFetchFailed (sub_views st)\<rparr>"

text \<open>
  The handler of the completed download. The source looks the path up twice, in the
  test and again for \<^verbatim>\<open>GetString\<close>; the lookup is a function of the parsed value, and
  the model names its result once.
\<close>

definition OnWaybackURLFetched ::
  "base_library \<Rightarrow> BraveWaybackMachineInfoBarView \<Rightarrow> string option
     \<Rightarrow> error + BraveWaybackMachineInfoBarView" where
  "OnWaybackURLFetched lib st response_body =
     (case response_body of
        None \<Rightarrow> Inr (fetch_failed st)
      | Some wayback_response_json \<Rightarrow>
          (case JSONReader_Read lib wayback_response_json of
             None \<Rightarrow> Inr (fetch_failed st)
           | Some result \<Rightarrow>
               (case Value_FindPath lib result ''archived_snapshots.closest.url'' of
                  Inl e \<Rightarrow> Inl e
                | Inr None \<Rightarrow> Inr (fetch_failed st)
                | Inr (Some found) \<Rightarrow>
                    (case GetString found of
                       Inl e \<Rightarrow> Inl e
                     | Inr url \<Rightarrow> Inr (RemoveInfoBar (LoadURL url st))))))"

subsection \<open>Runs\<close>

text \<open>
  What the host can call on a constructed infobar, and a run of such calls; a run
  stops at the first call that does not return. \<^verbatim>\<open>Layout\<close> only sets bounds and is not
  among the calls. Runs are not restricted further: a completion may arrive with no
  download started, and calls may follow the removal of the infobar.
\<close>

datatype event =
    EvButtonPressed GURL
  | EvWaybackURLFetched "string option"
  | EvThemeChanged "ThemeProvider option"

fun step ::
  "base_library \<Rightarrow> event \<Rightarrow> BraveWaybackMachineInfoBarView
     \<Rightarrow> error + BraveWaybackMachineInfoBarView" where
  "step lib (EvButtonPressed u) st = Inr (ButtonPressed u st)"
| "step lib (EvWaybackURLFetched body) st = OnWaybackURLFetched lib st body"
| "step lib (EvThemeChanged tp) st =
     (case OnThemeChanged tp (sub_views st) of
        Inl e \<Rightarrow> Inl e
      | Inr s \<Rightarrow> Inr (st\<lparr>sub_views := s\<rparr>))"

fun run ::
  "base_library \<Rightarrow> event list \<Rightarrow> BraveWaybackMachineInfoBarView
     \<Rightarrow> error + BraveWaybackMachineInfoBarView" where
  "run lib [] st = Inr st"
| "run lib (ev # evs) st =
     (case step lib ev st of Inl e \<Rightarrow> Inl e | Inr st' \<Rightarrow> run lib evs st')"

subsection \<open>Predicates on states and sample responses\<close>

text \<open>
  The two visibility patterns of the control sets, and the case excluded: a view of each
  set visible at once.
\<close>

definition shows_before :: "InfoBarViewSubViews \<Rightarrow> bool" where
  "shows_before s \<longleftrightarrow>
     list_all (\<lambda>p. visible (store s ! p)) (views_visible_before_checking s) \<and>
     list_all (\<lambda>p. \<not> visible (store s ! p)) (views_visible_after_checking s)"

definition shows_after :: "InfoBarViewSubViews \<Rightarrow> bool" where
  "shows_after s \<longleftrightarrow>
     list_all (\<lambda>p. \<not> visible (store s ! p)) (views_visible_before_checking s) \<and>
     list_all (\<lambda>p. visible (store s ! p)) (views_visible_after_checking s)"

definition both_visible :: "InfoBarViewSubViews \<Rightarrow> bool" where
  "both_visible s \<longleftrightarrow>
     list_ex (\<lambda>p. visible (store s ! p)) (views_visible_before_checking s) \<and>
     list_ex (\<lambda>p. visible (store s ! p)) (views_visible_after_checking s)"

text \<open>
  The pointers of the two sets refer to objects of the store, and no view is in both sets.
\<close>

definition pointers_ok :: "InfoBarViewSubViews \<Rightarrow> bool" where
  "pointers_ok s \<longleftrightarrow>
     list_all (\<lambda>p. p < length (store s))
       (views_visible_before_checking s @ views_visible_after_checking s) \<and>
     list_all (\<lambda>p. p \<notin> set (views_visible_after_checking s))
       (views_visible_before_checking s)"

text \<open>The pointers as \<open>InitializeChildren\<close> leaves them.\<close>

definition layout_ok :: "InfoBarViewSubViews \<Rightarrow> bool" where
  "layout_ok s \<longleftrightarrow>
     length (store s) = 8 \<and> labels s = [2, 3, 5] \<and>
     views_visible_before_checking s = [2, 3, 4, 7] \<and>
     views_visible_after_checking s = [5, 6] \<and> separator s = Some 1"

text \<open>The invariant carried along a run.\<close>

definition view_inv :: "InfoBarViewSubViews \<Rightarrow> bool" where
  "view_inv s \<longleftrightarrow> layout_ok s \<and> (shows_before s \<or> shows_after s)"

text \<open>The colours of all labels, and of the separator.\<close>

definition label_colors_are :: "SkColor \<Rightarrow> SkColor \<Rightarrow> InfoBarViewSubViews \<Rightarrow> bool" where
  "label_colors_are bg fg s \<longleftrightarrow>
     list_all (\<lambda>p. background_color (store s ! p) = Some bg \<and>
                    enabled_color (store s ! p) = Some fg) (labels s)"

definition separator_color_is :: "SkColor \<Rightarrow> InfoBarViewSubViews \<Rightarrow> bool" where
  "separator_color_is c s \<longleftrightarrow>
     (case separator s of None \<Rightarrow> False | Some sep \<Rightarrow> separator_color (store s ! sep) = Some c)"

text \<open>The downloads among the logged calls.\<close>

fun is_DownloadToString :: "effect \<Rightarrow> bool" where
  "is_DownloadToString (DownloadToString u n) = True"
| "is_DownloadToString e = False"

definition requests :: "BraveWaybackMachineInfoBarView \<Rightarrow> effect list" where
  "requests st = filter is_DownloadToString (effects st)"

text \<open>
  A library whose parser is given by a finite table from bodies to parsed values, with
  \<open>FindPath\<close> as its lookup: bodies outside the table do not parse.
\<close>

definition library_with :: "(string \<times> Value) list \<Rightarrow> base_library" where
  "library_with parses = \<lparr>JSONReader_Read = map_of parses, Value_FindPath = FindPath\<rparr>"

text \<open>
  Responses of the archive's availability API and their parsed values: a snapshot
  found, the same snapshot with no other field, no snapshot, and a snapshot entry whose
  \<^verbatim>\<open>url\<close> is a number.
\<close>

definition response_with_snapshot :: string where
  \<open>response_with_snapshot =
     ''{"url":"http://example.com/gone","archived_snapshots":{"closest":{"available":true,"url":"http://web.archive.org/web/2019/http://example.com/gone"}}}''\<close>

definition parsed_with_snapshot :: Value where
  "parsed_with_snapshot =
     DICTIONARY
       [(''url'', STRING ''http://example.com/gone''),
        (''archived_snapshots'',
         DICTIONARY
           [(''closest'',
             DICTIONARY
               [(''available'', BOOLEAN True),
                (''url'', STRING ''http://web.archive.org/web/2019/http://example.com/gone'')])])]"

definition response_with_snapshot_only :: string where
  \<open>response_with_snapshot_only =
     ''{"archived_snapshots":{"closest":{"url":"http://web.archive.org/web/2019/http://example.com/gone"}}}''\<close>

definition parsed_with_snapshot_only :: Value where
  "parsed_with_snapshot_only =
     DICTIONARY
       [(''archived_snapshots'',
         DICTIONARY
           [(''closest'',
             DICTIONARY
               [(''url'', STRING ''http://web.archive.org/web/2019/http://example.com/gone'')])])]"

definition response_without_snapshot :: string where
  \<open>response_without_snapshot = ''{"url":"http://example.com/gone","archived_snapshots":{}}''\<close>

definition parsed_without_snapshot :: Value where
  "parsed_without_snapshot =
     DICTIONARY [(''url'', STRING ''http://example.com/gone''), (''archived_snapshots'', DICTIONARY [])]"

definition response_with_numeric_url :: string where
  \<open>response_with_numeric_url = ''{"archived_snapshots":{"closest":{"url":5}}}''\<close>

definition parsed_with_numeric_url :: Value where
  "parsed_with_numeric_url =
     DICTIONARY [(''archived_snapshots'', DICTIONARY [(''closest'', DICTIONARY [(''url'', INTEGER 5)])])]"

text \<open>Two responses that hold no snapshot at all: a JSON array and an empty JSON object.\<close>

definition response_array :: string where
  "response_array = ''[]''"

definition parsed_array :: Value where
  "parsed_array = LIST []"

definition response_empty_object :: string where
  "response_empty_object = ''{}''"

definition parsed_empty_object :: Value where
  "parsed_empty_object = DICTIONARY []"

definition archive_library :: base_library where
  "archive_library =
     library_with
       [(response_with_snapshot, parsed_with_snapshot),
        (response_with_snapshot_only, parsed_with_snapshot_only),
        (response_without_snapshot, parsed_without_snapshot),
        (response_with_numeric_url, parsed_with_numeric_url),
        (response_array, parsed_array),
        (response_empty_object, parsed_empty_object)]"

section \<open>Facts about the model\<close>

subsection \<open>Updates of the store\<close>

lemma update_view_fields [simp]:
  "children (update_view p f s) = children s"
  "labels (update_view p f s) = labels s"
  "views_visible_before_checking (update_view p f s) = views_visible_before_checking s"
  "views_visible_after_checking (update_view p f s) = views_visible_after_checking s"
  "separator (update_view p f s) = separator s"
  "length (store (update_view p f s)) = length (store s)"
  by (simp_all add: update_view_def)

lemma update_view_nth:
  "store (update_view p f s) ! q =
     (if q = p \<and> p < length (store s) then f (store s ! p) else store s ! q)"
proof (cases "p < length (store s)")
  case True
  then show ?thesis by (simp add: update_view_def nth_list_update)
next
  case False
  then have "(store s)[p := f (store s ! p)] = store s"
    by (intro list_update_beyond) simp
  with False show ?thesis by (simp add: update_view_def)
qed

lemma fold_update_fields [simp]:
  "children (fold (\<lambda>p. update_view p (f p)) ps s) = children s"
  "labels (fold (\<lambda>p. update_view p (f p)) ps s) = labels s"
  "views_visible_before_checking (fold (\<lambda>p. update_view p (f p)) ps s) = views_visible_before_checking s"
  "views_visible_after_checking (fold (\<lambda>p. update_view p (f p)) ps s) = views_visible_after_checking s"
  "separator (fold (\<lambda>p. update_view p (f p)) ps s) = separator s"
  "length (store (fold (\<lambda>p. update_view p (f p)) ps s)) = length (store s)"
  by (induction ps arbitrary: s; simp)+

subsection \<open>What \<open>UpdateChildrenVisibility\<close> does to visibility\<close>

lemma SetVisible_nth:
  "visible (store (SetVisible b p s) ! q) =
     (if q = p \<and> p < length (store s) then b else visible (store s ! q))"
  by (simp add: SetVisible_def update_view_nth)

lemma SetVisible_length: "length (store (SetVisible b p s)) = length (store s)"
  by (simp add: SetVisible_def)

lemma fold_SetVisible_nth:
  "visible (store (fold (SetVisible b) ps s) ! q) =
     (if q \<in> set ps \<and> q < length (store s) then b else visible (store s ! q))"
proof (induction ps arbitrary: s)
  case Nil
  show ?case by simp
next
  case (Cons p ps)
  have "visible (store (fold (SetVisible b) (p # ps) s) ! q) =
        visible (store (fold (SetVisible b) ps (SetVisible b p s)) ! q)"
    by simp
  also have "\<dots> = (if q \<in> set ps \<and> q < length (store (SetVisible b p s)) then b
         else visible (store (SetVisible b p s) ! q))"
    by (rule Cons.IH)
  also have "\<dots> = (if q \<in> set (p # ps) \<and> q < length (store s) then b
         else visible (store s ! q))"
    by (auto simp: SetVisible_nth SetVisible_length)
  finally show ?case .
qed

lemma SetVisible_as_update: "SetVisible b = (\<lambda>p. update_view p (\<lambda>v. v\<lparr>visible := b\<rparr>))"
  by (rule ext)+ (simp add: SetVisible_def)

lemma UpdateChildrenVisibility_fields [simp]:
  "children (UpdateChildrenVisibility b s) = children s"
  "labels (UpdateChildrenVisibility b s) = labels s"
  "views_visible_before_checking (UpdateChildrenVisibility b s) = views_visible_before_checking s"
  "views_visible_after_checking (UpdateChildrenVisibility b s) = views_visible_after_checking s"
  "separator (UpdateChildrenVisibility b s) = separator s"
  "length (store (UpdateChildrenVisibility b s)) = length (store s)"
  by (simp_all add: UpdateChildrenVisibility_def Let_def SetVisible_as_update)

lemma UpdateChildrenVisibility_nth:
  "visible (store (UpdateChildrenVisibility b s) ! q) =
     (if q \<in> set (views_visible_after_checking s) \<and> q < length (store s) then \<not> b
      else if q \<in> set (views_visible_before_checking s) \<and> q < length (store s) then b
      else visible (store s ! q))"
proof -
  let ?s1 = "fold (SetVisible b) (views_visible_before_checking s) s"
  have f: "views_visible_after_checking ?s1 = views_visible_after_checking s"
    and l: "length (store ?s1) = length (store s)"
    by (simp_all add: SetVisible_as_update)
  have "UpdateChildrenVisibility b s = fold (SetVisible (\<not> b)) (views_visible_after_checking s) ?s1"
    by (simp add: UpdateChildrenVisibility_def Let_def f)
  then show ?thesis
    by (simp add: fold_SetVisible_nth l)
qed

lemma pointers_ok_UpdateChildrenVisibility:
  "pointers_ok s \<Longrightarrow> pointers_ok (UpdateChildrenVisibility b s)"
  by (simp add: pointers_ok_def)

lemma UpdateChildrenVisibility_shows:
  assumes "pointers_ok s"
  shows "shows_before (UpdateChildrenVisibility True s)"
    and "shows_after (UpdateChildrenVisibility False s)"
  using assms
  by (auto simp: pointers_ok_def shows_before_def shows_after_def list_all_iff
        UpdateChildrenVisibility_nth)

subsection \<open>The constructed object\<close>

text \<open>The object after \<open>InitializeChildren\<close>, written out.\<close>

lemma InfoBarViewSubViews_new_eq:
  "InfoBarViewSubViews_new tp =
     \<lparr>store =
        [new_view ImageView,
         new_view Separator,
         (new_view Label)\<lparr>background_color := Some (GetColor tp COLOR_INFOBAR),
                           enabled_color := Some (GetColor tp COLOR_BOOKMARK_TEXT)\<rparr>,
         (new_view Label)\<lparr>background_color := Some (GetColor tp COLOR_INFOBAR),
                           enabled_color := Some (GetColor tp COLOR_BOOKMARK_TEXT)\<rparr>,
         new_view View,
         (new_view Label)\<lparr>visible := False,
                           background_color := Some (GetColor tp COLOR_INFOBAR),
                           enabled_color := Some (GetColor tp COLOR_BOOKMARK_TEXT)\<rparr>,
         (new_view ImageView)\<lparr>visible := False\<rparr>,
         new_view MdTextButton],
      children = [0, 1, 2, 3, 4, 5, 6, 7],
      labels = [2, 3, 5],
      views_visible_before_checking = [2, 3, 4, 7],
      views_visible_after_checking = [5, 6],
      separator = Some 1\<rparr>"
  by (simp add: InfoBarViewSubViews_new_def InitializeChildren_def Let_def alloc_def
        AddChildView_def CreateLabel_def push_before_def push_after_def
        UpdateChildrenVisibility_def SetVisible_def update_view_def SetBackgroundColor_def
        SetEnabledColor_def new_view_def kInfoBarLabelBackgroundColor_def
        kInfoBarLabelTextColor_def)

lemma layout_ok_new: "layout_ok (InfoBarViewSubViews_new tp)"
  by (simp add: InfoBarViewSubViews_new_eq layout_ok_def)

lemma layout_ok_pointers_ok: "layout_ok s \<Longrightarrow> pointers_ok s"
  by (simp add: layout_ok_def pointers_ok_def)

lemma shows_before_new: "shows_before (InfoBarViewSubViews_new tp)"
  by (simp add: InfoBarViewSubViews_new_eq shows_before_def new_view_def)

lemma shows_before_not_both: "shows_before s \<Longrightarrow> \<not> both_visible s"
  by (auto simp: shows_before_def both_visible_def list_all_iff list_ex_iff)

lemma shows_after_not_both: "shows_after s \<Longrightarrow> \<not> both_visible s"
  by (auto simp: shows_after_def both_visible_def list_all_iff list_ex_iff)

lemma layout_ok_UpdateChildrenVisibility:
  "layout_ok s \<Longrightarrow> layout_ok (UpdateChildrenVisibility b s)"
  by (simp add: layout_ok_def)

subsection \<open>Theme changes\<close>

text \<open>The colour setters leave visibility alone.\<close>

lemma fold_update_visible:
  assumes "\<And>p v. visible (f p v) = visible v"
  shows "visible (store (fold (\<lambda>p. update_view p (f p)) ps s) ! q) = visible (store s ! q)"
proof (induction ps arbitrary: s)
  case Nil
  show ?case by simp
next
  case (Cons p ps)
  have "visible (store (update_view p (f p) s) ! q) = visible (store s ! q)"
    by (simp add: update_view_nth assms)
  with Cons.IH [of "update_view p (f p) s"] show ?case by simp
qed

lemma update_view_visible:
  assumes "\<And>v. visible (f v) = visible v"
  shows "visible (store (update_view p f s) ! q) = visible (store s ! q)"
  by (simp add: update_view_nth assms)

lemma update_view_twice:
  "update_view p g (update_view p f s) = update_view p (\<lambda>v. g (f v)) s"
proof (cases "p < length (store s)")
  case True
  then show ?thesis by (simp add: update_view_def)
next
  case False
  then have "(store s)[p := x] = store s" for x
    by (intro list_update_beyond) simp
  then show ?thesis by (simp add: update_view_def)
qed

lemma OnThemeChanged_labels_fold:
  "fold (\<lambda>label s. SetEnabledColor c2 label (SetBackgroundColor c1 label s)) ps s =
   fold (\<lambda>p. update_view p (\<lambda>v. v\<lparr>background_color := Some c1, enabled_color := Some c2\<rparr>)) ps s"
proof -
  have "(\<lambda>label s. SetEnabledColor c2 label (SetBackgroundColor c1 label s)) =
        (\<lambda>p. update_view p (\<lambda>v. v\<lparr>background_color := Some c1, enabled_color := Some c2\<rparr>))"
    by (intro ext) (simp add: SetEnabledColor_def SetBackgroundColor_def update_view_twice)
  then show ?thesis by simp
qed

lemma OnThemeChanged_eq:
  "OnThemeChanged tp s =
     (case separator s of
        None \<Rightarrow> Inl NullPointer
      | Some sep \<Rightarrow>
          Inr (update_view sep
                 (\<lambda>v. v\<lparr>separator_color := Some (GetColor tp kInfoBarLabelTextColor)\<rparr>)
                 (fold (\<lambda>p. update_view p
                          (\<lambda>v. v\<lparr>background_color := Some (GetColor tp kInfoBarLabelBackgroundColor),
                                  enabled_color := Some (GetColor tp kInfoBarLabelTextColor)\<rparr>))
                    (labels s) s)))"
  by (simp add: OnThemeChanged_def Let_def OnThemeChanged_labels_fold SetColor_def
        split: option.splits)

lemma OnThemeChanged_Inr:
  assumes "OnThemeChanged tp s = Inr s'"
  shows "labels s' = labels s"
    and "views_visible_before_checking s' = views_visible_before_checking s"
    and "views_visible_after_checking s' = views_visible_after_checking s"
    and "separator s' = separator s"
    and "length (store s') = length (store s)"
    and "visible (store s' ! q) = visible (store s ! q)"
proof -
  from assms obtain sep where sep: "separator s = Some sep"
    by (auto simp: OnThemeChanged_eq split: option.splits)
  with assms have s': "s' = update_view sep
                 (\<lambda>v. v\<lparr>separator_color := Some (GetColor tp kInfoBarLabelTextColor)\<rparr>)
                 (fold (\<lambda>p. update_view p
                          (\<lambda>v. v\<lparr>background_color := Some (GetColor tp kInfoBarLabelBackgroundColor),
                                  enabled_color := Some (GetColor tp kInfoBarLabelTextColor)\<rparr>))
                    (labels s) s)"
    by (simp add: OnThemeChanged_eq)
  show "labels s' = labels s"
    and "views_visible_before_checking s' = views_visible_before_checking s"
    and "views_visible_after_checking s' = views_visible_after_checking s"
    and "separator s' = separator s"
    and "length (store s') = length (store s)"
    by (simp_all add: s')
  show "visible (store s' ! q) = visible (store s ! q)"
    by (simp add: s' update_view_visible fold_update_visible)
qed

lemma OnThemeChanged_preserves:
  assumes "OnThemeChanged tp s = Inr s'"
  shows "layout_ok s \<Longrightarrow> layout_ok s'"
    and "shows_before s \<Longrightarrow> shows_before s'"
    and "shows_after s \<Longrightarrow> shows_after s'"
  by (simp_all add: layout_ok_def shows_before_def shows_after_def
        OnThemeChanged_Inr [OF assms])

lemma OnThemeChanged_returns:
  "separator s = Some sep \<Longrightarrow> \<exists>s'. OnThemeChanged tp s = Inr s'"
  by (simp add: OnThemeChanged_def Let_def OnThemeChanged_labels_fold)

subsection \<open>The invariant of the sub-views along a run\<close>

text \<open>The handler either leaves the sub-views alone or shows the failure controls.\<close>

lemma OnWaybackURLFetched_cases:
  assumes "OnWaybackURLFetched lib st response_body = Inr st'"
  shows "st' = fetch_failed st \<or>
         (\<exists>url. st' = st\<lparr>effects := effects st @
                     [NavigationController_LoadURL (GURL url), InfoBarService_RemoveInfoBar]\<rparr>)"
  using assms
  by (auto simp: OnWaybackURLFetched_def RemoveInfoBar_def LoadURL_def
        split: option.splits sum.splits)

lemma fetch_failed_simps [simp]:
  "effects (fetch_failed st) = effects st"
  "wayback_url_fetcher (fetch_failed st) = wayback_url_fetcher st"
  "sub_views (fetch_failed st) = UpdateChildrenVisibility False (sub_views st)"
  by (simp_all add: fetch_failed_def OnWaybackURLFetchFailed_def)

lemma view_inv_new: "view_inv (sub_views (BraveWaybackMachineInfoBarView_new tp))"
  by (simp add: view_inv_def BraveWaybackMachineInfoBarView_new_def layout_ok_new
        shows_before_new)

lemma view_inv_step:
  assumes "step lib ev st = Inr st'" and "view_inv (sub_views st)"
  shows "view_inv (sub_views st')"
proof (cases ev)
  case (EvButtonPressed u)
  with assms show ?thesis
    by (auto simp: ButtonPressed_def FetchWaybackURL_def Let_def)
next
  case (EvWaybackURLFetched body)
  with assms(1) have "OnWaybackURLFetched lib st body = Inr st'" by simp
  from OnWaybackURLFetched_cases [OF this] show ?thesis
  proof
    assume "st' = fetch_failed st"
    with assms(2) show ?thesis
      by (simp add: view_inv_def layout_ok_UpdateChildrenVisibility
            UpdateChildrenVisibility_shows(2) layout_ok_pointers_ok)
  next
    assume "\<exists>url. st' = st\<lparr>effects := effects st @
              [NavigationController_LoadURL (GURL url), InfoBarService_RemoveInfoBar]\<rparr>"
    with assms(2) show ?thesis by auto
  qed
next
  case (EvThemeChanged tp)
  with assms(1) obtain s' where s': "OnThemeChanged tp (sub_views st) = Inr s'"
    and st': "st' = st\<lparr>sub_views := s'\<rparr>"
    by (auto split: sum.splits)
  from assms(2) OnThemeChanged_preserves [OF s'] show ?thesis
    by (auto simp: view_inv_def st')
qed

lemma view_inv_run:
  "run lib evs st = Inr st' \<Longrightarrow> view_inv (sub_views st) \<Longrightarrow> view_inv (sub_views st')"
proof (induction evs arbitrary: st)
  case Nil
  then show ?case by simp
next
  case (Cons ev evs)
  from Cons.prems(1) obtain st1 where 1: "step lib ev st = Inr st1"
    and 2: "run lib evs st1 = Inr st'"
    by (auto split: sum.splits)
  from view_inv_step [OF 1 Cons.prems(2)] Cons.IH [OF 2] show ?case by blast
qed

section \<open>The claims\<close>

text \<open>The definitions of the sample responses, unfolded when a sample is evaluated.\<close>

lemmas example_defs =
  archive_library_def library_with_def response_with_snapshot_def
  response_without_snapshot_def response_with_numeric_url_def
  parsed_with_snapshot_def parsed_without_snapshot_def parsed_with_numeric_url_def
  response_with_snapshot_only_def parsed_with_snapshot_only_def
  response_array_def parsed_array_def response_empty_object_def parsed_empty_object_def

text \<open>
  Claim C1, as stated, promises the navigation for every response in which the path
  \<^verbatim>\<open>archived_snapshots.closest.url\<close> is present. On the response
  \<^verbatim>\<open>{"archived_snapshots":{"closest":{"url":5}}}\<close> the body parses and the path is present,
  and the handler neither navigates nor removes the infobar: it does not return.
\<close>

theorem path_present_without_navigation:
  "JSONReader_Read archive_library response_with_numeric_url = Some parsed_with_numeric_url
   \<and> Value_FindPath archive_library parsed_with_numeric_url ''archived_snapshots.closest.url'' =
       Inr (Some (INTEGER 5))
   \<and> OnWaybackURLFetched archive_library (BraveWaybackMachineInfoBarView_new None)
       (Some response_with_numeric_url) = Inl CHECK_is_string"
  by (simp add: OnWaybackURLFetched_def example_defs FindPath_def)

text \<open>
  Claim C1, amended. When the download completed with a body, the body parses, and the
  lookup of \<^verbatim>\<open>archived_snapshots.closest.url\<close> finds the string \<open>url\<close>, the handler calls
  \<^verbatim>\<open>LoadURL\<close> with \<open>url\<close>, then removes the infobar, and changes nothing else; it does
  not show the failure controls.
\<close>

theorem OnWaybackURLFetched_navigates:
  assumes "JSONReader_Read lib body = Some result"
    and "Value_FindPath lib result ''archived_snapshots.closest.url'' = Inr (Some (STRING url))"
  shows "OnWaybackURLFetched lib st (Some body) =
           Inr (st\<lparr>effects := effects st @
                  [NavigationController_LoadURL (GURL url), InfoBarService_RemoveInfoBar]\<rparr>)
         \<and> OnWaybackURLFetched lib st (Some body) \<noteq> Inr (fetch_failed st)"
proof -
  have "OnWaybackURLFetched lib st (Some body) = Inr (RemoveInfoBar (LoadURL url st))"
    using assms by (simp add: OnWaybackURLFetched_def)
  then have eq: "OnWaybackURLFetched lib st (Some body) =
           Inr (st\<lparr>effects := effects st @
                  [NavigationController_LoadURL (GURL url), InfoBarService_RemoveInfoBar]\<rparr>)"
    by (simp add: RemoveInfoBar_def LoadURL_def)
  have "effects (st\<lparr>effects := effects st @
                  [NavigationController_LoadURL (GURL url), InfoBarService_RemoveInfoBar]\<rparr>)
        \<noteq> effects (fetch_failed st)"
    by simp
  then have "st\<lparr>effects := effects st @
                  [NavigationController_LoadURL (GURL url), InfoBarService_RemoveInfoBar]\<rparr>
        \<noteq> fetch_failed st"
    by metis
  with eq show ?thesis by simp
qed

theorem OnWaybackURLFetched_navigates_witness:
  "OnWaybackURLFetched archive_library (BraveWaybackMachineInfoBarView_new None)
     (Some response_with_snapshot) =
   Inr ((BraveWaybackMachineInfoBarView_new None)\<lparr>effects :=
      [NavigationController_LoadURL
         (GURL ''http://web.archive.org/web/2019/http://example.com/gone''),
       InfoBarService_RemoveInfoBar]\<rparr>)"
proof -
  have r: "JSONReader_Read archive_library response_with_snapshot = Some parsed_with_snapshot"
    by (simp add: example_defs)
  have f: "Value_FindPath archive_library parsed_with_snapshot ''archived_snapshots.closest.url'' =
           Inr (Some (STRING ''http://web.archive.org/web/2019/http://example.com/gone''))"
    by (simp add: example_defs FindPath_def)
  from OnWaybackURLFetched_navigates [OF r f, of "BraveWaybackMachineInfoBarView_new None"]
  show ?thesis by (simp add: BraveWaybackMachineInfoBarView_new_def)
qed

text \<open>
  When the handler returns, it has shown the failure controls, with nothing else changed,
  if and only if the body was absent, or the parser rejected it, or the lookup of
  \<^verbatim>\<open>archived_snapshots.closest.url\<close> gave \<^verbatim>\<open>nullptr\<close>. For any parser and lookup.
\<close>

lemma OnWaybackURLFetched_returns_failure_iff:
  "(OnWaybackURLFetched lib st response_body = Inr (fetch_failed st)) =
     (response_body = None \<or>
      (\<exists>body. response_body = Some body \<and> JSONReader_Read lib body = None) \<or>
      (\<exists>body result. response_body = Some body \<and> JSONReader_Read lib body = Some result \<and>
         Value_FindPath lib result ''archived_snapshots.closest.url'' = Inr None))"
proof -
  have ne: "st\<lparr>effects := effects st @ es\<rparr> \<noteq> fetch_failed st" if "es \<noteq> []" for es
  proof
    assume "st\<lparr>effects := effects st @ es\<rparr> = fetch_failed st"
    then have "effects (st\<lparr>effects := effects st @ es\<rparr>) = effects (fetch_failed st)"
      by simp
    with that show False by simp
  qed
  show ?thesis
    by (auto simp: OnWaybackURLFetched_def RemoveInfoBar_def LoadURL_def ne
          split: option.splits sum.splits)
qed

text \<open>
  Claim C2. The claim says that the handler shows the failure controls whenever the
  response lacks the path \<^verbatim>\<open>archived_snapshots.closest.url\<close>. The handler calls
  \<^verbatim>\<open>FindPath\<close> on whatever the parser returned, without testing that it is a dictionary.
  The response \<^verbatim>\<open>[]\<close> parses, to an empty list, and holds nothing at the path; on it
  \<^verbatim>\<open>FindPath\<close> fails \<^verbatim>\<open>CHECK(is_dict())\<close> and the handler does not return: the failure
  controls are not shown.
\<close>

theorem array_body_fails_CHECK:
  "JSONReader_Read archive_library response_array = Some (LIST [])
   \<and> FindPathFrom (LIST []) (SplitPath ''archived_snapshots.closest.url'') = None
   \<and> Value_FindPath archive_library (LIST []) ''archived_snapshots.closest.url'' =
       Inl CHECK_is_dict
   \<and> OnWaybackURLFetched archive_library st (Some response_array) = Inl CHECK_is_dict
   \<and> OnWaybackURLFetched archive_library st (Some response_array) \<noteq> Inr (fetch_failed st)"
  by (simp add: OnWaybackURLFetched_def example_defs FindPath_def)

text \<open>
  Claim C3. A button press, whatever the tab's visible URL, adds exactly one call to the
  log: a download whose request URL is built from
  \<^verbatim>\<open>https://archive.org/wayback/available?url=\<close> followed by the spec of the visible URL.
  That request is the one held in \<^verbatim>\<open>wayback_url_fetcher_\<close>.
\<close>

theorem ButtonPressed_request:
  "effects (ButtonPressed visible_url st) =
     effects st @
       [DownloadToString
          (GURL (''https://archive.org/wayback/available?url='' @ spec visible_url))
          kMaxBodySize]
   \<and> requests (ButtonPressed visible_url st) =
     requests st @
       [DownloadToString
          (GURL (''https://archive.org/wayback/available?url='' @ spec visible_url))
          kMaxBodySize]
   \<and> wayback_url_fetcher (ButtonPressed visible_url st) =
       Some (GURL (''https://archive.org/wayback/available?url='' @ spec visible_url))
   \<and> sub_views (ButtonPressed visible_url st) = sub_views st"
  by (simp add: ButtonPressed_def FetchWaybackURL_def kWaybackQueryURL_def Let_def requests_def)

text \<open>
  Claim C4. In every state that a run of host calls reaches from the constructed infobar,
  the two sets of controls have opposite visibility: either every view of the "before
  checking" set is visible and every view of the "after checking" set is hidden, or the
  other way round; no view of one set is visible together with a view of the other. In
  such a state \<open>UpdateChildrenVisibility\<close>, the one operation that changes visibility,
  makes all of one set visible and all of the other hidden.
\<close>

theorem opposite_visibility_reachable:
  assumes "run lib evs (BraveWaybackMachineInfoBarView_new tp) = Inr st"
  shows "(shows_before (sub_views st) \<or> shows_after (sub_views st))
         \<and> \<not> both_visible (sub_views st)
         \<and> shows_before (UpdateChildrenVisibility True (sub_views st))
         \<and> shows_after (UpdateChildrenVisibility False (sub_views st))"
proof -
  from view_inv_run [OF assms view_inv_new]
  have l: "layout_ok (sub_views st)"
    and v: "shows_before (sub_views st) \<or> shows_after (sub_views st)"
    by (simp_all add: view_inv_def)
  from v have "\<not> both_visible (sub_views st)"
    using shows_before_not_both shows_after_not_both by blast
  with v UpdateChildrenVisibility_shows [OF layout_ok_pointers_ok [OF l]]
  show ?thesis by simp
qed

theorem opposite_visibility_reachable_witness:
  "(shows_before (sub_views (fetch_failed (ButtonPressed (GURL ''http://example.com/gone'')
        (BraveWaybackMachineInfoBarView_new None))))
    \<or> shows_after (sub_views (fetch_failed (ButtonPressed (GURL ''http://example.com/gone'')
        (BraveWaybackMachineInfoBarView_new None)))))
   \<and> \<not> both_visible (sub_views (fetch_failed (ButtonPressed (GURL ''http://example.com/gone'')
        (BraveWaybackMachineInfoBarView_new None))))"
proof -
  have "run archive_library
          [EvButtonPressed (GURL ''http://example.com/gone''),
           EvWaybackURLFetched (Some response_without_snapshot)]
          (BraveWaybackMachineInfoBarView_new None) =
        Inr (fetch_failed (ButtonPressed (GURL ''http://example.com/gone'')
              (BraveWaybackMachineInfoBarView_new None)))"
    by (simp add: OnWaybackURLFetched_def example_defs FindPath_def)
  from opposite_visibility_reachable [OF this] show ?thesis by simp
qed

text \<open>
  Claim C5. The claim says that a value present at \<^verbatim>\<open>archived_snapshots.closest.url\<close> is a
  string, so that \<^verbatim>\<open>GetString\<close> on the success branch cannot fail its \<^verbatim>\<open>CHECK\<close>. The
  handler tests presence only. On the response
  \<^verbatim>\<open>{"archived_snapshots":{"closest":{"url":5}}}\<close> the lookup finds the integer 5, the
  handler takes the success branch, and \<^verbatim>\<open>GetString\<close> fails \<^verbatim>\<open>CHECK(is_string())\<close>:
  nothing is navigated to and the failure controls are not shown.
\<close>

theorem numeric_url_fails_CHECK:
  "JSONReader_Read archive_library response_with_numeric_url = Some parsed_with_numeric_url
   \<and> Value_FindPath archive_library parsed_with_numeric_url ''archived_snapshots.closest.url'' =
       Inr (Some (INTEGER 5))
   \<and> \<not> is_string (INTEGER 5)
   \<and> OnWaybackURLFetched archive_library st (Some response_with_numeric_url) =
       Inl CHECK_is_string"
  by (simp add: OnWaybackURLFetched_def example_defs FindPath_def)

text \<open>
  Claim C6. The size limit is \<open>1024 * 1024\<close> bytes, one MiB, and it is the limit that
  \<open>FetchWaybackURL\<close> passes to the download.
\<close>

theorem kMaxBodySize_is_1MiB:
  "kMaxBodySize = 1024 * 1024 \<and> kMaxBodySize = 2 ^ 20 \<and>
   last (effects (FetchWaybackURL visible_url st)) =
     DownloadToString (GURL (kWaybackQueryURL @ spec visible_url)) (1024 * 1024)"
  by (simp add: kMaxBodySize_def FetchWaybackURL_def Let_def)

text \<open>
  Two response bodies that agree on whether they parse and, when they do, on the result
  of the lookup of \<^verbatim>\<open>archived_snapshots.closest.url\<close>, lead the handler to the same
  outcome from the same state. For any parser and lookup.
\<close>

lemma OnWaybackURLFetched_same_lookup:
  assumes "(JSONReader_Read lib body1 = None) = (JSONReader_Read lib body2 = None)"
    and "\<And>result1 result2.
           JSONReader_Read lib body1 = Some result1 \<Longrightarrow>
           JSONReader_Read lib body2 = Some result2 \<Longrightarrow>
           Value_FindPath lib result1 ''archived_snapshots.closest.url'' =
           Value_FindPath lib result2 ''archived_snapshots.closest.url''"
  shows "OnWaybackURLFetched lib st (Some body1) = OnWaybackURLFetched lib st (Some body2)"
proof (cases "JSONReader_Read lib body1")
  case None
  with assms(1) have "JSONReader_Read lib body2 = None" by simp
  with None show ?thesis by (simp add: OnWaybackURLFetched_def)
next
  case (Some result1)
  with assms(1) obtain result2 where 2: "JSONReader_Read lib body2 = Some result2"
    by auto
  from assms(2) [OF Some 2] Some 2 show ?thesis
    by (simp add: OnWaybackURLFetched_def)
qed

text \<open>
  Claim C7. The claim says that two responses that both parse and agree on the presence
  and value of \<^verbatim>\<open>archived_snapshots.closest.url\<close> have the same outcome. The responses
  \<^verbatim>\<open>[]\<close> and \<^verbatim>\<open>{}\<close> both parse and both hold nothing at the path. On \<^verbatim>\<open>{}\<close> the handler
  shows the failure controls; on \<^verbatim>\<open>[]\<close> it does not return, because \<^verbatim>\<open>FindPath\<close> is
  called on a value that is not a dictionary. The outcome depends on the type of the
  root, which is not part of the path.
\<close>

theorem array_and_object_differ:
  "JSONReader_Read archive_library response_array = Some (LIST [])
   \<and> JSONReader_Read archive_library response_empty_object = Some (DICTIONARY [])
   \<and> FindPathFrom (LIST []) (SplitPath ''archived_snapshots.closest.url'') = None
   \<and> FindPathFrom (DICTIONARY []) (SplitPath ''archived_snapshots.closest.url'') = None
   \<and> OnWaybackURLFetched archive_library st (Some response_empty_object) =
       Inr (fetch_failed st)
   \<and> OnWaybackURLFetched archive_library st (Some response_array) = Inl CHECK_is_dict
   \<and> OnWaybackURLFetched archive_library st (Some response_array) \<noteq>
       OnWaybackURLFetched archive_library st (Some response_empty_object)"
  by (simp add: OnWaybackURLFetched_def example_defs FindPath_def)

text \<open>
  Claim C8. The handler never starts a download: whenever it returns, the downloads in
  the log and the loader are as before, and so they are in the failure state. Among the
  calls of the host, only a button press adds a download.
\<close>

theorem no_retry:
  "(OnWaybackURLFetched lib st response_body = Inr st' \<longrightarrow>
      requests st' = requests st \<and> wayback_url_fetcher st' = wayback_url_fetcher st)
   \<and> requests (fetch_failed st) = requests st
   \<and> effects (fetch_failed st) = effects st
   \<and> (step lib ev st = Inr st' \<and> requests st' \<noteq> requests st \<longrightarrow>
        (\<exists>visible_url. ev = EvButtonPressed visible_url))"
proof -
  have handler: "requests st1 = requests st \<and> wayback_url_fetcher st1 = wayback_url_fetcher st"
    if "OnWaybackURLFetched lib st body = Inr st1" for body st1
    using OnWaybackURLFetched_cases [OF that] by (auto simp: requests_def)
  have theme: "requests st1 = requests st"
    if "step lib (EvThemeChanged tp) st = Inr st1" for tp st1
    using that by (auto simp: requests_def split: sum.splits)
  have "\<exists>visible_url. ev = EvButtonPressed visible_url"
    if "step lib ev st = Inr st'" and "requests st' \<noteq> requests st"
    using that handler theme by (cases ev) auto
  with handler show ?thesis
    by (auto simp: requests_def)
qed

theorem no_retry_witness:
  "requests (fetch_failed (ButtonPressed (GURL ''http://example.com/gone'')
       (BraveWaybackMachineInfoBarView_new None))) =
   [DownloadToString
      (GURL ''https://archive.org/wayback/available?url=http://example.com/gone'')
      kMaxBodySize]"
proof -
  let ?st = "ButtonPressed (GURL ''http://example.com/gone'')
       (BraveWaybackMachineInfoBarView_new None)"
  have "OnWaybackURLFetched archive_library ?st (Some response_without_snapshot) =
          Inr (fetch_failed ?st)"
    by (simp add: OnWaybackURLFetched_def example_defs FindPath_def)
  with no_retry [of archive_library ?st "Some response_without_snapshot" "fetch_failed ?st"]
  have "requests (fetch_failed ?st) = requests ?st"
    by simp
  then show ?thesis
    by (simp add: requests_def ButtonPressed_def FetchWaybackURL_def Let_def
          kWaybackQueryURL_def BraveWaybackMachineInfoBarView_new_def)
qed

text \<open>
  Claim C9. In the object the constructor returns, that is right after
  \<open>InitializeChildren\<close>, the four views of the "before checking" set are visible and
  the two views of the "after checking" set are hidden.
\<close>

theorem InitializeChildren_shows_before:
  "views_visible_before_checking (InfoBarViewSubViews_new tp) = [2, 3, 4, 7]
   \<and> views_visible_after_checking (InfoBarViewSubViews_new tp) = [5, 6]
   \<and> map (\<lambda>p. visible (store (InfoBarViewSubViews_new tp) ! p)) [2, 3, 4, 7] =
       [True, True, True, True]
   \<and> map (\<lambda>p. visible (store (InfoBarViewSubViews_new tp) ! p)) [5, 6] = [False, False]
   \<and> shows_before (InfoBarViewSubViews_new tp)
   \<and> \<not> shows_after (InfoBarViewSubViews_new tp)
   \<and> sub_views (BraveWaybackMachineInfoBarView_new tp) = InfoBarViewSubViews_new tp"
  by (simp add: InfoBarViewSubViews_new_eq shows_before_def shows_after_def new_view_def
        BraveWaybackMachineInfoBarView_new_def)

text \<open>
  Claim C10. \<open>GetColor\<close> gives the placeholder colour when there is no theme provider and
  the provider's colour for the id otherwise. The labels created during construction
  without a provider carry the placeholder colour, and in every reachable state
  \<open>OnThemeChanged\<close> without a provider returns, with the labels and the separator in the
  placeholder colour.
\<close>

theorem GetColor_total:
  "GetColor None color_id = kPlaceholderColor
   \<and> GetColor (Some theme_provider) color_id = theme_provider color_id
   \<and> label_colors_are kPlaceholderColor kPlaceholderColor (InfoBarViewSubViews_new None)
   \<and> (run lib evs (BraveWaybackMachineInfoBarView_new tp) = Inr st \<longrightarrow>
        (\<exists>s'. OnThemeChanged None (sub_views st) = Inr s' \<and>
              label_colors_are kPlaceholderColor kPlaceholderColor s' \<and>
              separator_color_is kPlaceholderColor s'))"
proof -
  have 1: "GetColor None c = kPlaceholderColor" for c
    by (simp add: GetColor_def)
  have 2: "GetColor (Some theme_provider) color_id = theme_provider color_id"
    by (simp add: GetColor_def)
  have 3: "label_colors_are kPlaceholderColor kPlaceholderColor (InfoBarViewSubViews_new None)"
    by (simp add: InfoBarViewSubViews_new_eq label_colors_are_def 1)
  have 4: "\<exists>s'. OnThemeChanged None s = Inr s' \<and>
              label_colors_are kPlaceholderColor kPlaceholderColor s' \<and>
              separator_color_is kPlaceholderColor s'" if "layout_ok s" for s
  proof -
    from that have "length (store s) = 8" and "labels s = [2, 3, 5]" and "separator s = Some 1"
      by (simp_all add: layout_ok_def)
    then show ?thesis
      by (simp add: OnThemeChanged_eq 1 label_colors_are_def separator_color_is_def
            update_view_nth)
  qed
  have "layout_ok (sub_views st)" if "run lib evs (BraveWaybackMachineInfoBarView_new tp) = Inr st"
    using view_inv_run [OF that view_inv_new] by (simp add: view_inv_def)
  with 1 2 3 4 show ?thesis by blast
qed

theorem GetColor_total_witness:
  "\<exists>s'. OnThemeChanged None
          (sub_views (ButtonPressed (GURL ''http://example.com/gone'')
             (BraveWaybackMachineInfoBarView_new None))) = Inr s' \<and>
        label_colors_are kPlaceholderColor kPlaceholderColor s' \<and>
        separator_color_is kPlaceholderColor s'"
proof -
  have "run archive_library [EvButtonPressed (GURL ''http://example.com/gone'')]
          (BraveWaybackMachineInfoBarView_new None) =
        Inr (ButtonPressed (GURL ''http://example.com/gone'')
              (BraveWaybackMachineInfoBarView_new None))"
    by simp
  with GetColor_total [of COLOR_INFOBAR "\<lambda>c. 0" archive_library
         "[EvButtonPressed (GURL ''http://example.com/gone'')]" None
         "ButtonPressed (GURL ''http://example.com/gone'')
              (BraveWaybackMachineInfoBarView_new None)"]
  show ?thesis by blast
qed

end
